theory Spec2Isabelle
  imports Complex_Main
begin

section \<open>Python values and exceptions\<close>

text \<open>
  The exceptions of Python 2 that the modelled functions of \<^verbatim>\<open>osxcollector.py\<close> can
  meet. A function that may raise returns \<open>pyerror + 'a\<close>, with \<open>Inl\<close> for the raise.
  \<open>RuntimeError\<close> stands for "maximum recursion depth exceeded".
\<close>

datatype pyerror =
    KeyError | TypeError | ValueError | IndexError | AttributeError
  | UnicodeDecodeError | UnicodeEncodeError | OverflowError | IOError | RuntimeError

text \<open>
  Floats are kept by their exact value; what the C library does with them
  (\<^verbatim>\<open>float(text)\<close>, \<^verbatim>\<open>timedelta(seconds=x)\<close>) is a parameter of the models below.
\<close>

datatype pyfloat = Finite rat | PosInf | NegInf | NaN

text \<open>
  The values the collector handles: \<^verbatim>\<open>None\<close>, byte strings (\<^verbatim>\<open>str\<close>), \<^verbatim>\<open>unicode\<close>
  strings (code points), \<^verbatim>\<open>buffer\<close> objects (sqlite blobs), booleans, integers, floats,
  the Foundation classes \<^verbatim>\<open>NSData\<close>, \<^verbatim>\<open>NSArray\<close>, \<^verbatim>\<open>NSDictionary\<close>, \<^verbatim>\<open>NSDate\<close>,
  Python \<^verbatim>\<open>dict\<close> and \<^verbatim>\<open>list\<close>, and any other object (opaque: it has a truth value
  and an identifying tag, and supports no operation).
  A dictionary is an association list with distinct keys, in the order of \<^verbatim>\<open>keys()\<close>.
\<close>

datatype pyval =
    PNone
  | PStr string
  | PUnicode "nat list"
  | PBuffer string
  | PBool bool
  | PInt int
  | PFloat pyfloat
  | NSData string
  | NSArray "pyval list"
  | NSDictionary "(pyval \<times> pyval) list"
  | PDict "(pyval \<times> pyval) list"
  | NSDate int
  | PList "pyval list"
  | PObject bool nat

section \<open>Logger and Logger.Extra\<close>

text \<open>
  The class-level state of \<^verbatim>\<open>Logger\<close> and \<^verbatim>\<open>Logger.Extra\<close>, with the two streams:
  \<open>written\<close> is what \<^verbatim>\<open>output_file\<close> has received, one entry per \<^verbatim>\<open>write\<close> call,
  \<open>io_calls\<close> counts the \<^verbatim>\<open>write\<close> and \<^verbatim>\<open>flush\<close> calls made on it so far, and
  \<open>stderr\<close> is what \<^verbatim>\<open>sys.stderr\<close> has received.
  \<^verbatim>\<open>DEBUG_MODE\<close> is at its initial value \<^verbatim>\<open>False\<close> throughout, so \<^verbatim>\<open>debugbreak()\<close>
  does nothing and the writes guarded by it do not happen.
\<close>

type_synonym pydict = "string \<rightharpoonup> pyval"

record logger =
  written :: "string list"
  io_calls :: nat
  lines_written :: nat
  extras :: pydict
  stderr :: "string list"

text \<open>
  What the logger takes from outside the repository: \<^verbatim>\<open>json.dumps\<close> (which raises on
  a value it cannot serialize), the output file (\<open>io_fails n\<close> says that the \<open>n\<close>-th
  call on it raises \<^verbatim>\<open>IOError\<close>), the formatting of an exception with its traceback,
  and \<^verbatim>\<open>repr\<close> of the extras.
\<close>

record logenv =
  dumps :: "pydict \<Rightarrow> pyerror + string"
  io_fails :: "nat \<Rightarrow> bool"
  format_exception :: "string \<Rightarrow> pyerror \<Rightarrow> string"
  repr_extras :: "pydict \<Rightarrow> string"

definition output_write :: "logenv \<Rightarrow> logger \<Rightarrow> string \<Rightarrow> (pyerror + unit) \<times> logger" where
  "output_write E L s =
     (if io_fails E (io_calls L) then (Inl IOError, L\<lparr>io_calls := Suc (io_calls L)\<rparr>)
      else (Inr (), L\<lparr>written := written L @ [s], io_calls := Suc (io_calls L)\<rparr>))"

definition output_flush :: "logenv \<Rightarrow> logger \<Rightarrow> (pyerror + unit) \<times> logger" where
  "output_flush E L =
     (if io_fails E (io_calls L) then (Inl IOError, L\<lparr>io_calls := Suc (io_calls L)\<rparr>)
      else (Inr (), L\<lparr>io_calls := Suc (io_calls L)\<rparr>))"

text \<open>
  The body of the \<^verbatim>\<open>try\<close> of \<^verbatim>\<open>log_dict\<close>: serialize, write, write the newline, flush,
  count the line. The first statement that raises ends it.
\<close>

definition log_dict_try :: "logenv \<Rightarrow> logger \<Rightarrow> pydict \<Rightarrow> (pyerror + unit) \<times> logger" where
  "log_dict_try E L record =
     (case dumps E record of
        Inl e \<Rightarrow> (Inl e, L)
      | Inr s \<Rightarrow>
         (case output_write E L s of
            (Inl e, L1) \<Rightarrow> (Inl e, L1)
          | (Inr _, L1) \<Rightarrow>
             (case output_write E L1 [CHR 0x0A] of
                (Inl e, L2) \<Rightarrow> (Inl e, L2)
              | (Inr _, L2) \<Rightarrow>
                 (case output_flush E L2 of
                    (Inl e, L3) \<Rightarrow> (Inl e, L3)
                  | (Inr _, L3) \<Rightarrow>
                      (Inr (), L3\<lparr>lines_written := lines_written L3 + 1\<rparr>)))))"

definition stderr_write :: "logger \<Rightarrow> string \<Rightarrow> logger" where
  "stderr_write L s = L\<lparr>stderr := stderr L @ [s]\<rparr>"

text \<open>
  \<^verbatim>\<open>log_dict\<close>, \<^verbatim>\<open>log_exception\<close> and \<^verbatim>\<open>log_error\<close> call each other. The first
  argument is the recursion depth the interpreter still allows, counted in calls of
  \<^verbatim>\<open>log_dict\<close>: at depth 0 the call raises \<^verbatim>\<open>RuntimeError\<close> before its body runs.
  \<^verbatim>\<open>log_dict\<close> updates the caller's dictionary in place, so it returns the dictionary too.
  An exception raised in the \<^verbatim>\<open>except\<close> clause, or in \<^verbatim>\<open>log_error\<close> before its writes to
  \<^verbatim>\<open>stderr\<close>, leaves the function.
\<close>

fun log_dict :: "logenv \<Rightarrow> nat \<Rightarrow> logger \<Rightarrow> pydict \<Rightarrow> (pyerror + unit) \<times> logger \<times> pydict"
  and log_error :: "logenv \<Rightarrow> nat \<Rightarrow> logger \<Rightarrow> string \<Rightarrow> (pyerror + unit) \<times> logger"
  and log_exception :: "logenv \<Rightarrow> nat \<Rightarrow> logger \<Rightarrow> pyerror \<Rightarrow> string \<Rightarrow> (pyerror + unit) \<times> logger"
where
  "log_dict E 0 L record = (Inl RuntimeError, L, record)"
| "log_dict E (Suc d) L record =
     (let record' = record ++ extras L in
      case log_dict_try E L record' of
        (Inr _, L1) \<Rightarrow> (Inr (), L1, record')
      | (Inl e, L1) \<Rightarrow>
          (case log_exception E d L1 e [] of (r, L2) \<Rightarrow> (r, L2, record')))"
| "log_error E d L message =
     (case log_dict E d L [''osxcollector_error'' \<mapsto> PStr message] of
        (Inl e, L1, _) \<Rightarrow> (Inl e, L1)
      | (Inr _, L1, _) \<Rightarrow>
          (Inr (),
           stderr_write (stderr_write (stderr_write L1 ''[ERROR] '') message)
             ('' - '' @ repr_extras E (extras L1) @ [CHR 0x0A])))"
| "log_exception E d L e message = log_error E d L (format_exception E message e)"

text \<open>
  \<^verbatim>\<open>with Logger.Extra(key, val)\<close>: \<^verbatim>\<open>__enter__\<close> stores the value under the key,
  \<^verbatim>\<open>__exit__\<close> deletes the key (\<^verbatim>\<open>del\<close> raises \<^verbatim>\<open>KeyError\<close> when it is not there).
\<close>

definition extra_enter :: "logger \<Rightarrow> string \<Rightarrow> pyval \<Rightarrow> logger" where
  "extra_enter L key val = L\<lparr>extras := (extras L)(key \<mapsto> val)\<rparr>"

definition extra_exit :: "logger \<Rightarrow> string \<Rightarrow> pyerror + logger" where
  "extra_exit L key =
     (if key \<in> dom (extras L) then Inr (L\<lparr>extras := (extras L)(key := None)\<rparr>)
      else Inl KeyError)"

definition logger0 :: logger where
  "logger0 = \<lparr>written = [], io_calls = 0, lines_written = 0, extras = Map.empty, stderr = []\<rparr>"

text \<open>Two concrete environments: one whose serializer rejects any record with a key
  \<^verbatim>\<open>bad\<close> and whose output file works, and one whose output file fails on every call.\<close>

definition env_example :: logenv where
  "env_example =
     \<lparr>dumps = (\<lambda>r. if r ''bad'' = None then Inr ''{}'' else Inl TypeError),
      io_fails = (\<lambda>n. False),
      format_exception = (\<lambda>m e. m @ '' TypeError''),
      repr_extras = (\<lambda>x. ''{}'')\<rparr>"

definition env_broken :: logenv where
  "env_broken = env_example\<lparr>io_fails := (\<lambda>n. True)\<rparr>"

section \<open>DictUtils\<close>

text \<open>
  \<^verbatim>\<open>x[link]\<close> for the values of the model. A dictionary is searched with Python's
  equality on hashable keys: a byte string equals a \<^verbatim>\<open>unicode\<close> string when it is ASCII
  and has the same characters, and \<^verbatim>\<open>True\<close>, \<^verbatim>\<open>1\<close> and \<^verbatim>\<open>1.0\<close> are one key. \<open>hashable_key\<close>
  maps a key to a canonical form on which that equality is the identity. A missing key
  raises \<^verbatim>\<open>KeyError\<close>.
\<close>

definition is_ascii :: "string \<Rightarrow> bool" where
  "is_ascii s = list_all (\<lambda>c. (of_char c :: nat) < 128) s"

definition codepoints :: "string \<Rightarrow> nat list" where
  "codepoints s = map of_char s"

datatype hkey = KNone | KText "nat list" | KBytes string | KNum rat | KInf bool

definition hashable_key :: "pyval \<Rightarrow> hkey option" where
  "hashable_key v =
     (case v of
        PNone \<Rightarrow> Some KNone
      | PStr s \<Rightarrow> Some (if is_ascii s then KText (codepoints s) else KBytes s)
      | PUnicode u \<Rightarrow> Some (KText u)
      | PBool b \<Rightarrow> Some (KNum (if b then 1 else 0))
      | PInt i \<Rightarrow> Some (KNum (of_int i))
      | PFloat f \<Rightarrow>
          (case f of Finite r \<Rightarrow> Some (KNum r) | PosInf \<Rightarrow> Some (KInf True)
           | NegInf \<Rightarrow> Some (KInf False) | NaN \<Rightarrow> None)
      | _ \<Rightarrow> None)"

definition py_key_eq :: "pyval \<Rightarrow> pyval \<Rightarrow> bool" where
  "py_key_eq a b =
     (case hashable_key a of None \<Rightarrow> False
      | Some x \<Rightarrow> (case hashable_key b of None \<Rightarrow> False | Some y \<Rightarrow> x = y))"

fun dict_getitem :: "(pyval \<times> pyval) list \<Rightarrow> pyval \<Rightarrow> pyerror + pyval" where
  "dict_getitem [] key = Inl KeyError"
| "dict_getitem ((k, v) # kvs) key = (if py_key_eq k key then Inr v else dict_getitem kvs key)"

text \<open>
  Indexing a sequence: a negative index counts from the end, an index out of range raises
  \<^verbatim>\<open>IndexError\<close>, an index that is no integer raises \<^verbatim>\<open>TypeError\<close>, and so does
  subscripting a value that is no container.
\<close>

definition seq_getitem :: "'a list \<Rightarrow> int \<Rightarrow> pyerror + 'a" where
  "seq_getitem xs i =
     (if 0 \<le> i \<and> i < int (length xs) then Inr (xs ! nat i)
      else if i < 0 \<and> 0 \<le> i + int (length xs) then Inr (xs ! nat (i + int (length xs)))
      else Inl IndexError)"

definition index_of :: "pyval \<Rightarrow> int option" where
  "index_of key = (case key of PInt i \<Rightarrow> Some i | PBool b \<Rightarrow> Some (if b then 1 else 0) | _ \<Rightarrow> None)"

definition py_getitem :: "pyval \<Rightarrow> pyval \<Rightarrow> pyerror + pyval" where
  "py_getitem x key =
     (case x of
        PDict kvs \<Rightarrow> dict_getitem kvs key
      | NSDictionary kvs \<Rightarrow> dict_getitem kvs key
      | PList xs \<Rightarrow> (case index_of key of None \<Rightarrow> Inl TypeError | Some i \<Rightarrow> seq_getitem xs i)
      | NSArray xs \<Rightarrow> (case index_of key of None \<Rightarrow> Inl TypeError | Some i \<Rightarrow> seq_getitem xs i)
      | PStr s \<Rightarrow>
          (case index_of key of None \<Rightarrow> Inl TypeError
           | Some i \<Rightarrow> map_sum id (\<lambda>c. PStr [c]) (seq_getitem s i))
      | PUnicode u \<Rightarrow>
          (case index_of key of None \<Rightarrow> Inl TypeError
           | Some i \<Rightarrow> map_sum id (\<lambda>c. PUnicode [c]) (seq_getitem u i))
      | PBuffer s \<Rightarrow>
          (case index_of key of None \<Rightarrow> Inl TypeError
           | Some i \<Rightarrow> map_sum id (\<lambda>c. PStr [c]) (seq_getitem s i))
      | NSData s \<Rightarrow>
          (case index_of key of None \<Rightarrow> Inl TypeError
           | Some i \<Rightarrow> map_sum id (\<lambda>c. PStr [c]) (seq_getitem s i))
      | _ \<Rightarrow> Inl TypeError)"

text \<open>
  \<^verbatim>\<open>int(link)\<close> on a byte string: surrounding whitespace, an optional sign, decimal digits;
  anything else raises \<^verbatim>\<open>ValueError\<close>.
\<close>

definition py_isspace :: "char \<Rightarrow> bool" where
  "py_isspace c = (c \<in> set [CHR '' '', CHR 0x09, CHR 0x0A, CHR 0x0B, CHR 0x0C, CHR 0x0D])"

definition py_strip :: "string \<Rightarrow> string" where
  "py_strip s = rev (dropWhile py_isspace (rev (dropWhile py_isspace s)))"

definition is_digit :: "char \<Rightarrow> bool" where
  "is_digit c = (48 \<le> (of_char c :: nat) \<and> (of_char c :: nat) \<le> 57)"

definition digits_value :: "string \<Rightarrow> int" where
  "digits_value ds = foldl (\<lambda>a c. 10 * a + (of_char c - 48)) 0 ds"

definition py_int :: "string \<Rightarrow> pyerror + int" where
  "py_int s =
     (let t = py_strip s;
          neg = (t \<noteq> [] \<and> hd t = CHR ''-'');
          ds = (if t \<noteq> [] \<and> (hd t = CHR ''-'' \<or> hd t = CHR ''+'') then tl t else t)
      in if ds \<noteq> [] \<and> list_all is_digit ds
         then Inr (if neg then - digits_value ds else digits_value ds)
         else Inl ValueError)"

text \<open>
  \<^verbatim>\<open>path.split('.')\<close>, and the path argument of \<^verbatim>\<open>get_deep\<close>: a string, or a list, tuple
  or set of strings (a set in its iteration order), which \<^verbatim>\<open>_link_path_to_chain\<close> returns
  as it is. The chain keeps the kind of sequence, because \<^verbatim>\<open>chain == []\<close> in
  \<^verbatim>\<open>_get_deep_by_chain\<close> holds for the empty list only: with an empty tuple or set the loop
  runs no step and the container itself is returned.
\<close>

fun split_on :: "char \<Rightarrow> string \<Rightarrow> string list" where
  "split_on sep [] = [[]]"
| "split_on sep (c # cs) =
     (if c = sep then [] # split_on sep cs
      else (case split_on sep cs of w # ws \<Rightarrow> (c # w) # ws | [] \<Rightarrow> [[c]]))"

datatype seq_kind = ListSeq | TupleSeq | SetSeq

datatype deep_path = PathStr string | PathSeq seq_kind "string list"

type_synonym chain = "seq_kind \<times> string list"

definition link_path_to_chain :: "deep_path \<Rightarrow> chain" where
  "link_path_to_chain path =
     (case path of
        PathStr s \<Rightarrow> (if s = [] then (ListSeq, []) else (ListSeq, split_on CHR ''.'' s))
      | PathSeq kind links \<Rightarrow> (kind, links))"

text \<open>
  One step of the loop of \<^verbatim>\<open>_get_deep_by_chain\<close>: \<^verbatim>\<open>x[link]\<close>, and on \<^verbatim>\<open>KeyError\<close> or
  \<^verbatim>\<open>TypeError\<close> the fallback \<^verbatim>\<open>x[int(link)]\<close>, whose exceptions leave the loop. The outer
  \<^verbatim>\<open>except\<close> turns \<^verbatim>\<open>KeyError\<close>, \<^verbatim>\<open>TypeError\<close> and \<^verbatim>\<open>ValueError\<close> into the default; any
  other exception leaves the function.
\<close>

definition follow_link :: "pyval \<Rightarrow> string \<Rightarrow> pyerror + pyval" where
  "follow_link x link =
     (case py_getitem x (PStr link) of
        Inr v \<Rightarrow> Inr v
      | Inl e \<Rightarrow>
          (if e = KeyError \<or> e = TypeError
           then (case py_int link of Inl e' \<Rightarrow> Inl e' | Inr i \<Rightarrow> py_getitem x (PInt i))
           else Inl e))"

fun follow_chain :: "pyval \<Rightarrow> string list \<Rightarrow> pyerror + pyval" where
  "follow_chain x [] = Inr x"
| "follow_chain x (link # chain) =
     (case follow_link x link of Inl e \<Rightarrow> Inl e | Inr x' \<Rightarrow> follow_chain x' chain)"

definition get_deep_by_chain :: "pyval \<Rightarrow> chain \<Rightarrow> pyval \<Rightarrow> pyerror + pyval" where
  "get_deep_by_chain x chain dflt =
     (if chain = (ListSeq, []) then Inr dflt
      else (case follow_chain x (snd chain) of
              Inr v \<Rightarrow> Inr v
            | Inl e \<Rightarrow>
                (if e = KeyError \<or> e = TypeError \<or> e = ValueError then Inr dflt
                 else Inl e)))"

definition get_deep :: "pyval \<Rightarrow> deep_path \<Rightarrow> pyval \<Rightarrow> pyerror + pyval" where
  "get_deep x path dflt = get_deep_by_chain x (link_path_to_chain path) dflt"

section \<open>_hash_file\<close>

text \<open>
  \<^verbatim>\<open>hashlib\<close> is a parameter: \<open>digest a data\<close> is the hex digest that algorithm \<open>a\<close> gives
  for the bytes \<open>data\<close>, and a hasher is its algorithm with the bytes fed to it so far.
  A file has its content and the reads that fail (\<open>read_fails n\<close>: the \<open>n\<close>-th \<^verbatim>\<open>read\<close>
  raises \<^verbatim>\<open>IOError\<close>); a path that \<^verbatim>\<open>open\<close> cannot open has no file.
\<close>

datatype algo = MD5 | SHA1 | SHA256

record pyfile =
  content :: string
  read_fails :: "nat \<Rightarrow> bool"

record hashenv =
  digest :: "algo \<Rightarrow> string \<Rightarrow> string"
  files :: "string \<Rightarrow> pyfile option"

definition CHUNK :: nat where
  "CHUNK = 1024 * 1024"

type_synonym hasher = "algo \<times> string"

definition hasher_update :: "string \<Rightarrow> hasher \<Rightarrow> hasher" where
  "hasher_update chunk h = (fst h, snd h @ chunk)"

definition hexdigest :: "hashenv \<Rightarrow> hasher \<Rightarrow> string" where
  "hexdigest E h = digest E (fst h) (snd h)"

text \<open>
  The loop \<^verbatim>\<open>for chunk in iter(partial(f.read, 1024*1024), '')\<close>: each read returns at
  most \<open>CHUNK\<close> bytes, the empty string ends the loop, and every chunk updates every hasher.
\<close>

function read_chunks :: "pyfile \<Rightarrow> nat \<Rightarrow> string \<Rightarrow> hasher list \<Rightarrow> pyerror + hasher list" where
  "read_chunks f n rest hashers =
     (if read_fails f n then Inl IOError
      else if take CHUNK rest = [] then Inr hashers
      else read_chunks f (Suc n) (drop CHUNK rest) (map (hasher_update (take CHUNK rest)) hashers))"
  by pat_completeness auto
termination
  by (relation "measure (\<lambda>(f, n, rest, hashers). length rest)") (auto simp: CHUNK_def)

text \<open>
  \<open>hash_file_try\<close> is the body of the \<^verbatim>\<open>try\<close> of \<^verbatim>\<open>_hash_file\<close>; the bare \<^verbatim>\<open>except\<close> turns
  every exception into three empty strings.
\<close>

definition hash_file_try :: "hashenv \<Rightarrow> string \<Rightarrow> pyerror + string list" where
  "hash_file_try E file_path =
     (case files E file_path of
        None \<Rightarrow> Inl IOError
      | Some f \<Rightarrow>
          (case read_chunks f 0 (content f) [(MD5, []), (SHA1, []), (SHA256, [])] of
             Inl e \<Rightarrow> Inl e
           | Inr hashers \<Rightarrow> Inr (map (hexdigest E) hashers)))"

definition hash_file :: "hashenv \<Rightarrow> string \<Rightarrow> string list" where
  "hash_file E file_path =
     (case hash_file_try E file_path of Inl e \<Rightarrow> [[], [], []] | Inr digests \<Rightarrow> digests)"

text \<open>
  A concrete file system: an empty file, a small file, and a file whose second read fails.
\<close>

definition fs_example :: hashenv where
  "fs_example =
     \<lparr>digest = (\<lambda>a data. (case a of MD5 \<Rightarrow> ''md5:'' | SHA1 \<Rightarrow> ''sha1:'' | SHA256 \<Rightarrow> ''sha256:'') @ data),
      files = [''/empty'' \<mapsto> \<lparr>content = [], read_fails = (\<lambda>n. False)\<rparr>,
               ''/abc'' \<mapsto> \<lparr>content = ''abc'', read_fails = (\<lambda>n. False)\<rparr>,
               ''/locked'' \<mapsto> \<lparr>content = ''abc'', read_fails = (\<lambda>n. n = 1)\<rparr>]\<rparr>"

section \<open>Dates\<close>

text \<open>
  \<^verbatim>\<open>datetime\<close> is the standard library's. Its proleptic Gregorian calendar is modelled as
  CPython has it: \<open>days_before_year\<close> counts the days before 1 January of a year and
  \<open>ord2year\<close> is the year part of \<^verbatim>\<open>_ord2ymd\<close>, on ordinals where 1 is 0001-01-01.
\<close>

definition days_before_year :: "int \<Rightarrow> int" where
  "days_before_year y = (y - 1) * 365 + (y - 1) div 4 - (y - 1) div 100 + (y - 1) div 400"

definition ord2year :: "int \<Rightarrow> int" where
  "ord2year ordinal =
     (let n = ordinal - 1;
          n400 = n div 146097; n = n mod 146097;
          n100 = n div 36524; n = n mod 36524;
          n4 = n div 1461; n = n mod 1461;
          n1 = n div 365;
          year = n400 * 400 + 1 + n100 * 100 + n4 * 4 + n1
      in if n1 = 4 \<or> n100 = 4 then year - 1 else year)"

text \<open>
  A naive \<^verbatim>\<open>datetime\<close> is its number of microseconds since 0001-01-01 00:00:00, valid from
  year 1 to year 9999; a \<^verbatim>\<open>timedelta\<close> is a number of microseconds of at most 999999999
  days either way. Building a \<^verbatim>\<open>timedelta\<close> or adding it to a \<^verbatim>\<open>datetime\<close> out of
  range raises \<^verbatim>\<open>OverflowError\<close>.
\<close>

type_synonym datetime = int
type_synonym timedelta = int

definition US_PER_SECOND :: int where "US_PER_SECOND = 1000000"
definition US_PER_DAY :: int where "US_PER_DAY = 86400 * 1000000"

definition MINYEAR :: int where "MINYEAR = 1"
definition MAXYEAR :: int where "MAXYEAR = 9999"

definition datetime_of_year :: "int \<Rightarrow> datetime" where
  "datetime_of_year y = days_before_year y * US_PER_DAY"

definition datetime_valid :: "datetime \<Rightarrow> bool" where
  "datetime_valid t = (datetime_of_year MINYEAR \<le> t \<and> t < datetime_of_year (MAXYEAR + 1))"

definition dt_year :: "datetime \<Rightarrow> int" where
  "dt_year t = ord2year (t div US_PER_DAY + 1)"

definition timedelta_of_us :: "int \<Rightarrow> pyerror + timedelta" where
  "timedelta_of_us us =
     (if - 999999999 \<le> us div US_PER_DAY \<and> us div US_PER_DAY \<le> 999999999 then Inr us
      else Inl OverflowError)"

definition datetime_add :: "datetime \<Rightarrow> timedelta \<Rightarrow> pyerror + datetime" where
  "datetime_add t d = (if datetime_valid (t + d) then Inr (t + d) else Inl OverflowError)"

definition DATETIME_2001 :: datetime where "DATETIME_2001 = datetime_of_year 2001"
definition DATETIME_1970 :: datetime where "DATETIME_1970 = datetime_of_year 1970"
definition DATETIME_1601 :: datetime where "DATETIME_1601 = datetime_of_year 1601"
definition MIN_YEAR :: int where "MIN_YEAR = 2004"

text \<open>
  What the collector takes from its environment: the local time \<^verbatim>\<open>datetime.now()\<close>, the
  local UTC offset in seconds at a POSIX time (none when the platform's \<^verbatim>\<open>localtime\<close>
  fails), \<^verbatim>\<open>float(text)\<close> (none when the text is no number), the \<^verbatim>\<open>timedelta\<close> of a float
  in a given unit (none when it raises), \<^verbatim>\<open>strftime\<close> (none when it raises),
  \<^verbatim>\<open>unicode.lower\<close> and \<^verbatim>\<open>repr\<close>. \<^verbatim>\<open>repr\<close> of a container or of an object with a
  \<^verbatim>\<open>__repr__\<close> of its own recurses and can raise, so it takes the recursion budget that is
  left where it is called and returns the string or the exception.
\<close>

record pyenv =
  now :: datetime
  utcoffset :: "int \<Rightarrow> int option"
  py_float :: "pyval \<Rightarrow> pyfloat option"
  timedelta_float :: "int \<Rightarrow> pyfloat \<Rightarrow> timedelta option"
  strftime :: "datetime \<Rightarrow> string option"
  unicode_lower :: "nat list \<Rightarrow> nat list"
  repr :: "nat \<Rightarrow> pyval \<Rightarrow> pyerror + string"

text \<open>
  \<^verbatim>\<open>timedelta(seconds=val)\<close> and \<^verbatim>\<open>timedelta(microseconds=val)\<close>: \<open>unit\<close> is the number of
  microseconds of one unit. Integers and booleans are exact, and any value that is no
  number raises \<^verbatim>\<open>TypeError\<close>.
\<close>

definition timedelta_of :: "pyenv \<Rightarrow> int \<Rightarrow> pyval \<Rightarrow> pyerror + timedelta" where
  "timedelta_of E unit val =
     (case val of
        PInt n \<Rightarrow> timedelta_of_us (n * unit)
      | PBool b \<Rightarrow> timedelta_of_us ((if b then 1 else 0) * unit)
      | PFloat f \<Rightarrow> (case timedelta_float E unit f of None \<Rightarrow> Inl OverflowError | Some d \<Rightarrow> Inr d)
      | _ \<Rightarrow> Inl TypeError)"

text \<open>
  \<^verbatim>\<open>calendar.timegm(dt.timetuple())\<close> drops the microseconds and counts seconds from 1970;
  \<^verbatim>\<open>datetime.fromtimestamp\<close> gives the local naive time, or raises \<^verbatim>\<open>ValueError\<close>.
\<close>

definition timegm :: "datetime \<Rightarrow> int" where
  "timegm t = t div US_PER_SECOND - DATETIME_1970 div US_PER_SECOND"

definition fromtimestamp :: "pyenv \<Rightarrow> int \<Rightarrow> pyerror + datetime" where
  "fromtimestamp E secs =
     (case utcoffset E secs of
        None \<Rightarrow> Inl ValueError
      | Some off \<Rightarrow>
          (let t = DATETIME_1970 + (secs + off) * US_PER_SECOND
           in if datetime_valid t then Inr t else Inl ValueError))"

text \<open>
  The two decorators. \<^verbatim>\<open>_timestamp_errorhandling\<close> calls the wrapped function, computes
  \<^verbatim>\<open>tomorrow\<close>, and returns \<^verbatim>\<open>None\<close> when the year is below \<^verbatim>\<open>MIN_YEAR\<close>, when the date is
  after \<^verbatim>\<open>tomorrow\<close>, or when anything raised. \<^verbatim>\<open>_convert_to_local\<close> lets exceptions through.
\<close>

definition timestamp_errorhandling ::
    "pyenv \<Rightarrow> ('a \<Rightarrow> pyerror + datetime) \<Rightarrow> 'a \<Rightarrow> datetime option" where
  "timestamp_errorhandling E func x =
     (case func x of
        Inl e \<Rightarrow> None
      | Inr dt \<Rightarrow>
          (case datetime_add (now E) US_PER_DAY of
             Inl e \<Rightarrow> None
           | Inr tomorrow \<Rightarrow>
               (if dt_year dt < MIN_YEAR \<or> dt > tomorrow then None else Some dt)))"

definition convert_to_local ::
    "pyenv \<Rightarrow> ('a \<Rightarrow> pyerror + datetime) \<Rightarrow> 'a \<Rightarrow> pyerror + datetime" where
  "convert_to_local E func x =
     (case func x of Inl e \<Rightarrow> Inl e | Inr dt \<Rightarrow> fromtimestamp E (timegm dt))"

text \<open>
  The four conversions are \<^verbatim>\<open>EPOCH + timedelta(unit=val)\<close> under both decorators.
\<close>

definition epoch_plus :: "pyenv \<Rightarrow> datetime \<Rightarrow> int \<Rightarrow> pyval \<Rightarrow> pyerror + datetime" where
  "epoch_plus E epoch unit val =
     (case timedelta_of E unit val of Inl e \<Rightarrow> Inl e | Inr d \<Rightarrow> datetime_add epoch d)"

definition seconds_since_2001_to_datetime :: "pyenv \<Rightarrow> pyval \<Rightarrow> datetime option" where
  "seconds_since_2001_to_datetime E =
     timestamp_errorhandling E (convert_to_local E (epoch_plus E DATETIME_2001 US_PER_SECOND))"

definition seconds_since_epoch_to_datetime :: "pyenv \<Rightarrow> pyval \<Rightarrow> datetime option" where
  "seconds_since_epoch_to_datetime E =
     timestamp_errorhandling E (convert_to_local E (epoch_plus E DATETIME_1970 US_PER_SECOND))"

definition microseconds_since_epoch_to_datetime :: "pyenv \<Rightarrow> pyval \<Rightarrow> datetime option" where
  "microseconds_since_epoch_to_datetime E =
     timestamp_errorhandling E (convert_to_local E (epoch_plus E DATETIME_1970 1))"

definition microseconds_since_1601_to_datetime :: "pyenv \<Rightarrow> pyval \<Rightarrow> datetime option" where
  "microseconds_since_1601_to_datetime E =
     timestamp_errorhandling E (convert_to_local E (epoch_plus E DATETIME_1601 1))"

text \<open>
  \<^verbatim>\<open>a or b\<close> on results that are \<^verbatim>\<open>None\<close> or a \<^verbatim>\<open>datetime\<close> (which is always true), and
  \<^verbatim>\<open>_value_to_datetime\<close>: a string is first turned into a float, and a string that is no
  number gives \<^verbatim>\<open>None\<close>.
\<close>

definition py_or :: "'a option \<Rightarrow> 'a option \<Rightarrow> 'a option" where
  "py_or a b = (case a of Some x \<Rightarrow> Some x | None \<Rightarrow> b)"

definition is_basestring :: "pyval \<Rightarrow> bool" where
  "is_basestring v = (case v of PStr s \<Rightarrow> True | PUnicode u \<Rightarrow> True | _ \<Rightarrow> False)"

definition try_candidates :: "pyenv \<Rightarrow> pyval \<Rightarrow> datetime option" where
  "try_candidates E val =
     py_or (microseconds_since_epoch_to_datetime E val)
       (py_or (microseconds_since_1601_to_datetime E val)
          (py_or (seconds_since_epoch_to_datetime E val)
             (seconds_since_2001_to_datetime E val)))"

definition value_to_datetime :: "pyenv \<Rightarrow> pyval \<Rightarrow> datetime option" where
  "value_to_datetime E val =
     (if is_basestring val
      then (case py_float E val of None \<Rightarrow> None | Some f \<Rightarrow> try_candidates E (PFloat f))
      else try_candidates E val)"

definition datetime_to_string :: "pyenv \<Rightarrow> datetime \<Rightarrow> pyval" where
  "datetime_to_string E dt = (case strftime E dt of None \<Rightarrow> PNone | Some s \<Rightarrow> PStr s)"

text \<open>
  A concrete environment: the clock at the start of 2040, eight hours west of UTC.
\<close>

definition pyenv_example :: pyenv where
  "pyenv_example =
     \<lparr>now = datetime_of_year 2040,
      utcoffset = (\<lambda>t. Some (- 28800)),
      py_float = (\<lambda>v. None),
      timedelta_float = (\<lambda>unit f. None),
      strftime = (\<lambda>t. Some ''<date>''),
      unicode_lower = (\<lambda>u. u),
      repr = (\<lambda>d v. Inr ''<repr>'')\<rparr>"

text \<open>
  The specification's reading of the inference, for comparison with \<open>value_to_datetime\<close>:
  four candidate interpretations in a fixed order, the first accepted result wins.
\<close>

fun first_accepted :: "'a option list \<Rightarrow> 'a option" where
  "first_accepted [] = None"
| "first_accepted (Some x # rs) = Some x"
| "first_accepted (None # rs) = first_accepted rs"

definition spec_candidates :: "(pyenv \<Rightarrow> pyval \<Rightarrow> datetime option) list" where
  "spec_candidates =
     [microseconds_since_epoch_to_datetime, microseconds_since_1601_to_datetime,
      seconds_since_epoch_to_datetime, seconds_since_2001_to_datetime]"

definition spec_infer :: "pyenv \<Rightarrow> pyval \<Rightarrow> datetime option" where
  "spec_infer E val = first_accepted (map (\<lambda>c. c E val) spec_candidates)"

section \<open>Normalization of values\<close>

text \<open>
  Truth value of a Python object, as \<^verbatim>\<open>if key\<close> and \<^verbatim>\<open>not val\<close> test it.
\<close>

definition py_truth :: "pyval \<Rightarrow> bool" where
  "py_truth v =
     (case v of
        PNone \<Rightarrow> False
      | PStr s \<Rightarrow> s \<noteq> []
      | PUnicode u \<Rightarrow> u \<noteq> []
      | PBuffer s \<Rightarrow> s \<noteq> []
      | PBool b \<Rightarrow> b
      | PInt i \<Rightarrow> i \<noteq> 0
      | PFloat f \<Rightarrow> f \<noteq> Finite 0
      | NSData d \<Rightarrow> d \<noteq> []
      | NSArray xs \<Rightarrow> xs \<noteq> []
      | NSDictionary kvs \<Rightarrow> kvs \<noteq> []
      | PDict kvs \<Rightarrow> kvs \<noteq> []
      | NSDate t \<Rightarrow> True
      | PList xs \<Rightarrow> xs \<noteq> []
      | PObject b tag \<Rightarrow> b)"

text \<open>
  \<^verbatim>\<open>key.lower().find(hint)\<close>: \<^verbatim>\<open>str.lower\<close> maps the ASCII capitals, \<^verbatim>\<open>unicode.lower\<close>
  is a parameter, and \<^verbatim>\<open>find\<close> is not \<open>-1\<close> exactly when the hint occurs in the key. Only
  strings have \<^verbatim>\<open>lower\<close>: any other object raises \<^verbatim>\<open>AttributeError\<close>.
\<close>

definition lower_byte :: "char \<Rightarrow> char" where
  "lower_byte c =
     (if 65 \<le> (of_char c :: nat) \<and> (of_char c :: nat) \<le> 90
      then char_of ((of_char c :: nat) + 32) else c)"

fun starts_with :: "'a list \<Rightarrow> 'a list \<Rightarrow> bool" where
  "starts_with [] s = True"
| "starts_with (h # hs) [] = False"
| "starts_with (h # hs) (c # cs) = (h = c \<and> starts_with hs cs)"

fun occurs_in :: "'a list \<Rightarrow> 'a list \<Rightarrow> bool" where
  "occurs_in h [] = (h = [])"
| "occurs_in h (c # cs) = (starts_with h (c # cs) \<or> occurs_in h cs)"

definition py_lower :: "pyenv \<Rightarrow> pyval \<Rightarrow> pyerror + nat list" where
  "py_lower E key =
     (case key of
        PStr s \<Rightarrow> Inr (codepoints (map lower_byte s))
      | PUnicode u \<Rightarrow> Inr (unicode_lower E u)
      | _ \<Rightarrow> Inl AttributeError)"

definition timestamp_hints :: "string list" where
  "timestamp_hints = [''time'', ''utc'', ''date'', ''accessed'']"

definition key_hints_timestamp :: "pyenv \<Rightarrow> pyval \<Rightarrow> pyerror + bool" where
  "key_hints_timestamp E key =
     (if \<not> py_truth key then Inr False
      else (case py_lower E key of
              Inl e \<Rightarrow> Inl e
            | Inr low \<Rightarrow> Inr (list_ex (\<lambda>hint. occurs_in (codepoints hint) low) timestamp_hints)))"

text \<open>Decimal digits of a length, for \<^verbatim>\<open>'<NSData bytes:{0}>'.format(val.length())\<close>.\<close>

fun show_nat :: "nat \<Rightarrow> string" where
  "show_nat n =
     (if n < 10 then [char_of (48 + n)] else show_nat (n div 10) @ [char_of (48 + n mod 10)])"

text \<open>
  \<^verbatim>\<open>decode('utf-16le', errors='ignore')\<close> of ASCII bytes: each pair of bytes is one code
  unit (no surrogate has an ASCII high byte), a trailing odd byte is dropped.
\<close>

fun utf16le_decode :: "string \<Rightarrow> nat list" where
  "utf16le_decode (lo # hi # rest) = (of_char lo + 256 * of_char hi) # utf16le_decode rest"
| "utf16le_decode _ = []"

text \<open>A list comprehension stops at the first element that raises.\<close>

fun collect :: "(pyerror + 'a) list \<Rightarrow> pyerror + 'a list" where
  "collect [] = Inr []"
| "collect (Inl e # rs) = Inl e"
| "collect (Inr x # rs) = (case collect rs of Inl e \<Rightarrow> Inl e | Inr xs \<Rightarrow> Inr (x # xs))"

text \<open>
  How deep a value is nested: one for a scalar, one more than its deepest element for a
  container.
\<close>

fun nesting :: "pyval \<Rightarrow> nat" where
  "nesting (NSArray xs) = Suc (foldr max (map nesting xs) 0)"
| "nesting (PList xs) = Suc (foldr max (map nesting xs) 0)"
| "nesting (NSDictionary kvs) = Suc (foldr max (map (\<lambda>(k, v). nesting v) kvs) 0)"
| "nesting (PDict kvs) = Suc (foldr max (map (\<lambda>(k, v). nesting v) kvs) 0)"
| "nesting v = Suc 0"

text \<open>
  \<^verbatim>\<open>_normalize_val(val, key)\<close>. The function calls itself on the elements of an array and
  on the values of a dictionary, so it meets the interpreter's recursion limit on a value
  that is nested deeply enough. As for \<^verbatim>\<open>log_dict\<close>, the second argument is the number of
  nested calls of \<^verbatim>\<open>_normalize_val\<close> that the interpreter still admits: at 0 the call
  raises \<^verbatim>\<open>RuntimeError\<close> before its body runs, and a call admitted with \<open>Suc d\<close> leaves
  \<open>d\<close> to what it calls. The calls of one activation that never come back to
  \<^verbatim>\<open>_normalize_val\<close> (the test of the key, the timestamp inference, \<^verbatim>\<open>isinstance\<close>,
  \<^verbatim>\<open>debugbreak\<close>) are counted with the activation.

  The test of the key and the timestamp inference are outside the \<^verbatim>\<open>try\<close>, so an exception
  of \<^verbatim>\<open>key.lower()\<close> leaves the function. \<open>normalize_try\<close> is the body of the \<^verbatim>\<open>try\<close>, one
  equation per branch of the \<^verbatim>\<open>isinstance\<close> chain, in its order; whatever it raises, the
  \<^verbatim>\<open>RuntimeError\<close> of a nested call included, is caught by \<^verbatim>\<open>except Exception\<close>, whose
  handler returns \<^verbatim>\<open>repr(val)\<close> (its message to \<^verbatim>\<open>stderr\<close> is not modelled). An exception
  of that \<^verbatim>\<open>repr\<close> is raised in the handler and leaves the function.
  \<^item> \<^verbatim>\<open>unicode(val)\<close> decodes a byte string as ASCII and raises \<^verbatim>\<open>UnicodeDecodeError\<close> on
    any other byte; the following \<^verbatim>\<open>decode\<close> of a \<^verbatim>\<open>unicode\<close> object first encodes it as
    ASCII and raises \<^verbatim>\<open>UnicodeEncodeError\<close> on any other character, which the inner
    \<^verbatim>\<open>except\<close> catches to return \<^verbatim>\<open>val\<close>.
  \<^item> For a buffer every exception of the decoding is caught by the inner bare \<^verbatim>\<open>except\<close>,
    which returns \<^verbatim>\<open>repr(val)\<close>; an exception of this \<^verbatim>\<open>repr\<close> goes to the outer handler.
\<close>

fun normalize_val :: "pyenv \<Rightarrow> nat \<Rightarrow> pyval \<Rightarrow> pyval \<Rightarrow> pyerror + pyval"
  and normalize_try :: "pyenv \<Rightarrow> nat \<Rightarrow> pyval \<Rightarrow> pyerror + pyval"
where
  "normalize_val E 0 val key = Inl RuntimeError"
| "normalize_val E (Suc d) val key =
     (case key_hints_timestamp E key of
        Inl e \<Rightarrow> Inl e
      | Inr hinted \<Rightarrow>
          (case (if hinted then value_to_datetime E val else None) of
             Some ts \<Rightarrow> Inr (datetime_to_string E ts)
           | None \<Rightarrow>
               (case normalize_try E d val of
                  Inl e \<Rightarrow> map_sum id PStr (repr E d val)
                | Inr v \<Rightarrow> Inr v)))"
| "normalize_try E d (PStr s) =
     (if is_ascii s then Inr (PUnicode (codepoints s)) else Inl UnicodeDecodeError)"
| "normalize_try E d (PUnicode u) = Inr (PUnicode u)"
| "normalize_try E d (PBuffer s) =
     (if is_ascii s then Inr (PUnicode (utf16le_decode s))
      else map_sum id PStr (repr E d (PBuffer s)))"
| "normalize_try E d (PBool b) = Inr (PBool b)"
| "normalize_try E d (PInt i) = Inr (PInt i)"
| "normalize_try E d (PFloat f) = Inr (PFloat f)"
| "normalize_try E d (NSData bs) = Inr (PStr (''<NSData bytes:'' @ show_nat (length bs) @ ''>''))"
| "normalize_try E d (NSArray xs) =
     (case collect (map (\<lambda>stuff. normalize_val E d stuff PNone) xs) of
        Inl e \<Rightarrow> Inl e
      | Inr vs \<Rightarrow> Inr (PList vs))"
| "normalize_try E d (NSDictionary kvs) =
     (case collect (map (\<lambda>(k, v). map_sum id (Pair k) (normalize_val E d v k)) kvs) of
        Inl e \<Rightarrow> Inl e
      | Inr items \<Rightarrow> Inr (PDict items))"
| "normalize_try E d (PDict kvs) =
     (case collect (map (\<lambda>(k, v). map_sum id (Pair k) (normalize_val E d v k)) kvs) of
        Inl e \<Rightarrow> Inl e
      | Inr items \<Rightarrow> Inr (PDict items))"
| "normalize_try E d (NSDate t) = map_sum id PStr (repr E d (NSDate t))"
| "normalize_try E d val =
     (if \<not> py_truth val then Inr (PStr []) else map_sum id PStr (repr E d val))"

text \<open>
  An environment whose \<^verbatim>\<open>repr\<close> needs one unit of the budget for each level of the value,
  as \<^verbatim>\<open>repr\<close> of nested lists and dictionaries does.
\<close>

definition pyenv_bounded :: pyenv where
  "pyenv_bounded =
     pyenv_example\<lparr>repr := (\<lambda>d v. if nesting v \<le> d then Inr ''<repr>'' else Inl RuntimeError)\<rparr>"



text \<open>An integer inside \<open>n\<close> arrays, one in the other.\<close>

fun nested_array :: "nat \<Rightarrow> pyval" where
  "nested_array 0 = PInt 1"
| "nested_array (Suc n) = NSArray [nested_array n]"

section \<open>Properties\<close>

subsection \<open>Logger\<close>

lemma log_dict_try_ok:
  assumes "dumps E r = Inr s" "\<not> io_fails E (io_calls L)"
    "\<not> io_fails E (io_calls L + 1)" "\<not> io_fails E (io_calls L + 2)"
  shows "log_dict_try E L r =
    (Inr (), L\<lparr>written := written L @ [s, [CHR 0x0A]], io_calls := io_calls L + 3,
        lines_written := lines_written L + 1\<rparr>)"
  using assms by (simp add: log_dict_try_def output_write_def output_flush_def)

lemma log_dict_try_lines:
  "log_dict_try E L r = (res, L') \<Longrightarrow>
     extras L' = extras L \<and> stderr L' = stderr L \<and>
     lines_written L' = (case res of Inl e \<Rightarrow> lines_written L | Inr u \<Rightarrow> lines_written L + 1)"
  by (auto simp: log_dict_try_def output_write_def output_flush_def
      split: sum.splits if_splits)

text \<open>
  Claim C7: a successful \<^verbatim>\<open>log_dict\<close> (serialization succeeds and neither write nor the
  flush raises) writes exactly the serialized record and then one newline, adds exactly one
  to \<^verbatim>\<open>lines_written\<close>, and the record it serializes has every key of the caller's record
  and every key of the extras, the extras winning where a key is in both.
\<close>

theorem log_dict_success:
  assumes "dumps E (record ++ extras L) = Inr s"
    and "\<not> io_fails E (io_calls L)"
    and "\<not> io_fails E (io_calls L + 1)"
    and "\<not> io_fails E (io_calls L + 2)"
  shows "log_dict E (Suc d) L record =
      (Inr (),
       L\<lparr>written := written L @ [s, [CHR 0x0A]], io_calls := io_calls L + 3,
         lines_written := lines_written L + 1\<rparr>,
       record ++ extras L)
    \<and> dom (record ++ extras L) = dom record \<union> dom (extras L)
    \<and> (\<forall>k v. extras L k = Some v \<longrightarrow> (record ++ extras L) k = Some v)
    \<and> (\<forall>k. extras L k = None \<longrightarrow> (record ++ extras L) k = record k)"
  using log_dict_try_ok [OF assms] by (auto simp: map_add_def split: option.splits)

theorem log_dict_success_witness:
  "log_dict env_example (Suc 0) (extra_enter logger0 ''phase'' (PStr ''x'')) [''k'' \<mapsto> PStr ''v'']
     = (Inr (),
       (extra_enter logger0 ''phase'' (PStr ''x''))\<lparr>written := [''{}'', [CHR 0x0A]], io_calls := 3,
         lines_written := 1\<rparr>,
       [''k'' \<mapsto> PStr ''v'', ''phase'' \<mapsto> PStr ''x''])"
  using log_dict_success [of env_example "[''k'' \<mapsto> PStr ''v'']" "extra_enter logger0 ''phase'' (PStr ''x'')" "''{}''" 0]
  by (simp add: env_example_def extra_enter_def logger0_def)

text \<open>
  Claim C8 says that after a failed serialization or write the call returns normally with
  the line counter not incremented. Here the record cannot be serialized, the call returns
  normally, and \<^verbatim>\<open>lines_written\<close> has gone from 0 to 1: the error record that
  \<^verbatim>\<open>log_error\<close> emits is counted.
\<close>

theorem log_dict_failure_counted_counterexample:
  "\<not> (dumps env_example ([''bad'' \<mapsto> PNone] ++ extras logger0) = Inl TypeError \<longrightarrow>
       fst (log_dict env_example 2 logger0 [''bad'' \<mapsto> PNone]) = Inr () \<and>
       lines_written (fst (snd (log_dict env_example 2 logger0 [''bad'' \<mapsto> PNone])))
         = lines_written logger0)"
  by (simp add: env_example_def logger0_def numeral_2_eq_2 log_dict_try_def
      output_write_def output_flush_def stderr_write_def)

text \<open>
  When the output file fails on every call the report of the failure fails again, and
  the recursion ends only at the interpreter's depth limit: the \<^verbatim>\<open>RuntimeError\<close> reaches
  the caller.
\<close>

lemma log_dict_persistent_failure:
  "fst (log_dict env_broken d L r) = Inl RuntimeError"
proof (induction d arbitrary: L r)
  case 0
  show ?case by simp
next
  case (Suc d)
  have "\<exists>e. fst (log_dict_try env_broken L (r ++ extras L)) = Inl e"
    by (simp add: log_dict_try_def env_broken_def env_example_def output_write_def
        split: sum.splits)
  then obtain e L1 where t: "log_dict_try env_broken L (r ++ extras L) = (Inl e, L1)"
    by (metis prod.collapse)
  let ?r' = "[''osxcollector_error'' \<mapsto> PStr (format_exception env_broken [] e)]"
  have "fst (log_dict env_broken d L1 ?r') = Inl RuntimeError"
    by (rule Suc.IH)
  then obtain L2 r2 where "log_dict env_broken d L1 ?r' = (Inl RuntimeError, L2, r2)"
    by (metis prod.collapse)
  then show ?case using t
    by (simp add: Let_def)
qed

text \<open>
  Claim C8, amended: when the \<^verbatim>\<open>try\<close> of \<^verbatim>\<open>log_dict\<close> raises (in serialization, a write or
  the flush), the exception is caught and reported through \<^verbatim>\<open>log_exception\<close> and
  \<^verbatim>\<open>log_error\<close>, which emit an error record through \<^verbatim>\<open>log_dict\<close> again; when that emission
  succeeds the call returns normally, the three pieces of the message are on \<^verbatim>\<open>stderr\<close>,
  and \<^verbatim>\<open>lines_written\<close> has grown by exactly one, for the error record.
\<close>

theorem log_dict_failure_reported:
  assumes "log_dict_try E L (record ++ extras L) = (Inl e, L1)"
    and "log_dict_try E L1
           ([''osxcollector_error'' \<mapsto> PStr (format_exception E [] e)] ++ extras L1)
         = (Inr (), L2)"
  shows "log_dict E (Suc (Suc d)) L record =
      (Inr (),
       L2\<lparr>stderr := stderr L2 @
          [''[ERROR] '', format_exception E [] e,
           '' - '' @ repr_extras E (extras L2) @ [CHR 0x0A]]\<rparr>,
       record ++ extras L)
    \<and> lines_written L2 = lines_written L + 1"
  using assms log_dict_try_lines [OF assms(1)] log_dict_try_lines [OF assms(2)]
  by (simp add: stderr_write_def)

theorem log_dict_failure_reported_witness:
  "log_dict env_example 2 logger0 [''bad'' \<mapsto> PNone] =
     (Inr (),
      \<lparr>written = [''{}'', [CHR 0x0A]], io_calls = 3, lines_written = 1, extras = Map.empty,
        stderr = [''[ERROR] '', '' TypeError'', '' - {}'' @ [CHR 0x0A]]\<rparr>,
      [''bad'' \<mapsto> PNone])"
proof -
  have 1: "log_dict_try env_example logger0 ([''bad'' \<mapsto> PNone] ++ extras logger0)
      = (Inl TypeError, logger0)"
    by (simp add: log_dict_try_def env_example_def)
  have 2: "log_dict_try env_example logger0
      ([''osxcollector_error'' \<mapsto> PStr (format_exception env_example [] TypeError)]
         ++ extras logger0)
      = (Inr (), logger0\<lparr>written := [''{}'', [CHR 0x0A]], io_calls := 3, lines_written := 1\<rparr>)"
    by (simp add: log_dict_try_def env_example_def logger0_def output_write_def
        output_flush_def)
  show ?thesis
    using log_dict_failure_reported [OF 1 2, of 0]
    by (simp add: numeral_2_eq_2 env_example_def logger0_def)
qed

text \<open>
  Claim C10: \<^verbatim>\<open>log_dict\<close> updates the caller's dictionary in place. After every call that
  is entered, whatever its outcome, the dictionary is the caller's record overlaid with the
  extras: every extras key is there with the extras' value, every other key is unchanged.
\<close>

theorem log_dict_updates_record:
  "snd (snd (log_dict E (Suc d) L record)) = record ++ extras L
   \<and> (\<forall>k v. extras L k = Some v \<longrightarrow> snd (snd (log_dict E (Suc d) L record)) k = Some v)
   \<and> (\<forall>k. extras L k = None \<longrightarrow> snd (snd (log_dict E (Suc d) L record)) k = record k)"
proof -
  have "snd (snd (log_dict E (Suc d) L record)) = record ++ extras L"
    by (simp add: Let_def split: prod.splits sum.splits)
  then show ?thesis by (auto simp: map_add_def split: option.splits)
qed

theorem log_dict_updates_record_witness:
  "snd (snd (log_dict env_broken 1 (extra_enter logger0 ''user'' (PStr ''bob''))
       [''user'' \<mapsto> PStr ''eve'', ''k'' \<mapsto> PInt 1]))
     = [''user'' \<mapsto> PStr ''bob'', ''k'' \<mapsto> PInt 1]
   \<and> fst (log_dict env_broken 1 (extra_enter logger0 ''user'' (PStr ''bob''))
       [''user'' \<mapsto> PStr ''eve'', ''k'' \<mapsto> PInt 1]) = Inl RuntimeError"
  using log_dict_updates_record [of env_broken 0 "extra_enter logger0 ''user'' (PStr ''bob'')"
      "[''user'' \<mapsto> PStr ''eve'', ''k'' \<mapsto> PInt 1]"]
    log_dict_persistent_failure [of 1 "extra_enter logger0 ''user'' (PStr ''bob'')"
      "[''user'' \<mapsto> PStr ''eve'', ''k'' \<mapsto> PInt 1]"]
  by (auto simp: extra_enter_def logger0_def map_add_def fun_eq_iff)

text \<open>
  Claim C1 says that releasing the inner of two scopes on the same key restores the outer
  value and that releasing the outer scope then raises nothing. After \<^verbatim>\<open>user=alice\<close> and
  \<^verbatim>\<open>user=bob\<close> are pushed, the inner \<^verbatim>\<open>__exit__\<close> leaves no \<^verbatim>\<open>user\<close> key at all, so the next
  record does not carry \<^verbatim>\<open>user=alice\<close>, and the outer \<^verbatim>\<open>__exit__\<close> raises \<^verbatim>\<open>KeyError\<close>.
\<close>

theorem extra_nested_restore_counterexample:
  "extra_exit (extra_enter (extra_enter logger0 ''user'' (PStr ''alice'')) ''user'' (PStr ''bob''))
       ''user'' = Inr logger0
   \<and> snd (snd (log_dict env_example 1 logger0 Map.empty)) ''user'' \<noteq> Some (PStr ''alice'')
   \<and> extra_exit logger0 ''user'' = Inl KeyError"
  by (simp add: extra_exit_def extra_enter_def logger0_def Let_def
      split: prod.splits sum.splits)

text \<open>
  Claim C1, amended: \<^verbatim>\<open>__enter__\<close> stores the value under the key, so the innermost push
  on a key is the value a record emitted inside it carries; \<^verbatim>\<open>__exit__\<close> deletes the key,
  it does not restore a value. So a release restores the state of the matching push exactly
  when the key was absent at that push; after the inner of two scopes on the same key is
  released the key is gone, and releasing the outer one raises \<^verbatim>\<open>KeyError\<close>.
\<close>

theorem extra_scope_discipline:
  "extras (extra_enter (extra_enter L key a) key b) key = Some b
   \<and> snd (snd (log_dict E (Suc d) (extra_enter (extra_enter L key a) key b) record)) key = Some b
   \<and> extra_exit (extra_enter L key v) key = Inr (L\<lparr>extras := (extras L)(key := None)\<rparr>)
   \<and> (extras L key = None \<longrightarrow> extra_exit (extra_enter L key v) key = Inr L)
   \<and> extra_exit (L\<lparr>extras := (extras L)(key := None)\<rparr>) key = Inl KeyError"
proof -
  have "extras L key = None \<Longrightarrow> (extras L)(key := None) = extras L"
    by (rule ext) simp
  then show ?thesis
    by (simp add: extra_exit_def extra_enter_def Let_def split: prod.splits sum.splits)
qed

theorem extra_scope_discipline_witness:
  "extras logger0 ''user'' = None
   \<and> extra_exit (extra_enter logger0 ''user'' (PStr ''alice'')) ''user'' = Inr logger0
   \<and> extras (extra_enter (extra_enter logger0 ''user'' (PStr ''alice'')) ''user'' (PStr ''bob''))
        ''user'' = Some (PStr ''bob'')"
  using extra_scope_discipline [of logger0 "''user''" "PStr ''alice''" "PStr ''bob''" env_example 0
      Map.empty "PStr ''alice''"]
  by (simp add: logger0_def)

subsection \<open>DictUtils.get_deep\<close>

lemma seq_getitem_error: "seq_getitem xs i = Inl e \<Longrightarrow> e = IndexError"
  by (auto simp: seq_getitem_def split: if_splits)

lemma dict_getitem_error: "dict_getitem kvs k = Inl e \<Longrightarrow> e = KeyError"
  by (induction kvs) (auto split: if_splits)

lemma py_getitem_error:
  "py_getitem x k = Inl e \<Longrightarrow> e = KeyError \<or> e = TypeError \<or> e = IndexError"
  by (cases x)
    (auto simp: py_getitem_def map_sum_def dest: seq_getitem_error dict_getitem_error
      split: option.splits sum.splits)

lemma follow_link_error:
  "follow_link x l = Inl e \<Longrightarrow> e \<in> {KeyError, TypeError, IndexError, ValueError}"
  by (auto simp: follow_link_def py_int_def Let_def split: sum.splits if_splits
      dest: py_getitem_error)

lemma follow_chain_error:
  "follow_chain x c = Inl e \<Longrightarrow> e \<in> {KeyError, TypeError, IndexError, ValueError}"
  by (induction c arbitrary: x) (auto split: sum.splits dest: follow_link_error)

text \<open>
  The only exception that leaves \<^verbatim>\<open>get_deep\<close> is \<^verbatim>\<open>IndexError\<close>: the \<^verbatim>\<open>except\<close> clauses
  name \<^verbatim>\<open>KeyError\<close>, \<^verbatim>\<open>TypeError\<close> and \<^verbatim>\<open>ValueError\<close> only.
\<close>

lemma get_deep_error: "get_deep x p d = Inl e \<Longrightarrow> e = IndexError"
  by (auto simp: get_deep_def get_deep_by_chain_def split: if_splits sum.splits
      dest: follow_chain_error)

text \<open>
  An empty tuple or set is not \<^verbatim>\<open>[]\<close>, so it gives the container and not the default.
\<close>

lemma get_deep_empty_tuple:
  "get_deep x (PathSeq TupleSeq []) d = Inr x" "get_deep x (PathSeq SetSeq []) d = Inr x"
  "get_deep x (PathSeq ListSeq []) d = Inr d"
  by (simp_all add: get_deep_def get_deep_by_chain_def link_path_to_chain_def)

text \<open>The examples of the specification.\<close>

lemma get_deep_examples:
  "get_deep (PDict [(PStr ''a'', PDict [(PStr ''b'', PList [PInt 10, PInt 20, PInt 30])])])
      (PathStr ''a.b.1'') PNone = Inr (PInt 20)"
  "get_deep (PDict []) (PathStr []) PNone = Inr PNone"
  "get_deep (PDict [(PStr ''a'', PInt 1)]) (PathStr ''a.b'') PNone = Inr PNone"
  by (simp_all add: get_deep_def get_deep_by_chain_def link_path_to_chain_def follow_link_def
      py_getitem_def py_key_eq_def hashable_key_def is_ascii_def codepoints_def py_int_def
      py_strip_def py_isspace_def is_digit_def digits_value_def seq_getitem_def index_of_def)

text \<open>
  Claim C3 says that \<^verbatim>\<open>get_deep\<close> never raises and yields the default in every failing
  case, also when a segment parses as an integer that is out of range as a sequence index.
  The code does not: in \<^verbatim>\<open>get_deep({'a': [10, 20, 30]}, 'a.5', None)\<close> the lookup
  \<^verbatim>\<open>x['5']\<close> raises \<^verbatim>\<open>TypeError\<close>, the fallback \<^verbatim>\<open>x[int('5')]\<close> raises \<^verbatim>\<open>IndexError\<close>, and
  no \<^verbatim>\<open>except\<close> clause catches it.
\<close>

theorem get_deep_index_out_of_range_raises:
  "get_deep (PDict [(PStr ''a'', PList [PInt 10, PInt 20, PInt 30])]) (PathStr ''a.5'') PNone
     = Inl IndexError"
  by (simp add: get_deep_def get_deep_by_chain_def link_path_to_chain_def follow_link_def
      py_getitem_def py_key_eq_def hashable_key_def is_ascii_def codepoints_def py_int_def
      py_strip_def py_isspace_def is_digit_def digits_value_def seq_getitem_def index_of_def)

subsection \<open>File hashing\<close>

declare read_chunks.simps [simp del]

lemma read_chunks_fail:
  "k \<le> n \<Longrightarrow> n \<le> k + (length rest + CHUNK - 1) div CHUNK \<Longrightarrow> read_fails f n
     \<Longrightarrow> \<exists>e. read_chunks f k rest hs = Inl e"
proof (induction f k rest hs rule: read_chunks.induct)
  case (1 f k rest hs)
  show ?case
  proof (cases "read_fails f k")
    case True
    then show ?thesis by (subst read_chunks.simps) simp
  next
    case nofail: False
    show ?thesis
    proof (cases "take CHUNK rest = []")
      case True
      then have "rest = []" by (auto simp: CHUNK_def)
      then have "(length rest + CHUNK - 1) div CHUNK = 0" by (simp add: CHUNK_def)
      with "1.prems" nofail have False by (cases "n = k") auto
      then show ?thesis ..
    next
      case False
      then have ne: "0 < length rest" by auto
      from "1.prems" nofail have "Suc k \<le> n" by (cases "n = k") auto
      moreover have "n \<le> Suc k + (length (drop CHUNK rest) + CHUNK - 1) div CHUNK"
      proof (cases "CHUNK \<le> length rest")
        case True
        then have "length rest + CHUNK - 1 = (length rest - CHUNK + CHUNK - 1) + CHUNK"
          by (simp add: CHUNK_def)
        then have "(length rest + CHUNK - 1) div CHUNK
            = Suc ((length rest - CHUNK + CHUNK - 1) div CHUNK)"
          by (simp add: CHUNK_def)
        with "1.prems" show ?thesis by simp
      next
        case False
        with ne have "length rest + CHUNK - 1 = (length rest - 1) + CHUNK" "length rest - 1 < CHUNK"
          by (cases rest; simp)+
        then have "(length rest + CHUNK - 1) div CHUNK = 1"
          by (simp add: CHUNK_def)
        with "1.prems" show ?thesis by simp
      qed
      ultimately have "\<exists>e. read_chunks f (Suc k) (drop CHUNK rest)
            (map (hasher_update (take CHUNK rest)) hs) = Inl e"
        using "1.IH" nofail False "1.prems"(3) by blast
      then show ?thesis using nofail False by (subst read_chunks.simps) simp
    qed
  qed
qed

lemma read_chunks_ok:
  "\<forall>n. \<not> read_fails f n \<Longrightarrow>
     read_chunks f k rest hs = Inr (map (\<lambda>h. (fst h, snd h @ rest)) hs)"
proof (induction f k rest hs rule: read_chunks.induct)
  case (1 f k rest hs)
  show ?case
  proof (cases "take CHUNK rest = []")
    case True
    then have "rest = []" by (auto simp: CHUNK_def)
    then show ?thesis using "1.prems" by (subst read_chunks.simps) simp
  next
    case False
    have "read_chunks f (Suc k) (drop CHUNK rest) (map (hasher_update (take CHUNK rest)) hs)
        = Inr (map (\<lambda>h. (fst h, snd h @ drop CHUNK rest)) (map (hasher_update (take CHUNK rest)) hs))"
      using "1.IH" "1.prems" False by blast
    also have "\<dots> = Inr (map (\<lambda>h. (fst h, snd h @ rest)) hs)"
      by (simp add: hasher_update_def)
    finally show ?thesis using "1.prems" False by (subst read_chunks.simps) simp
  qed
qed

lemma hash_file_length: "length (hash_file E p) = 3"
proof -
  have "length hs' = length hs" if "read_chunks f k rest hs = Inr hs'" for f k rest hs hs'
    using that
  proof (induction f k rest hs rule: read_chunks.induct)
    case (1 f n rest hashers)
    then show ?case by (subst (asm) (2) read_chunks.simps) (auto split: if_splits)
  qed
  then show ?thesis
    by (fastforce simp: hash_file_def hash_file_try_def split: sum.splits option.splits)
qed

lemma hash_file_all_reads_ok:
  assumes "files E p = Some f" "\<forall>n. \<not> read_fails f n"
  shows "hash_file E p = [digest E MD5 (content f), digest E SHA1 (content f), digest E SHA256 (content f)]"
  using assms by (simp add: hash_file_def hash_file_try_def read_chunks_ok hexdigest_def)

text \<open>
  Claim C9: on a readable file of zero bytes \<^verbatim>\<open>_hash_file\<close> returns the three digests of
  the empty byte string (no \<^verbatim>\<open>update\<close> is called before \<^verbatim>\<open>hexdigest\<close>); when the path
  cannot be opened, or any of the reads the loop makes raises, it returns three empty
  strings. The function has no raising outcome: its \<^verbatim>\<open>except\<close> is bare.
\<close>

theorem hash_file_empty_and_failure:
  "(files E p = Some f \<and> content f = [] \<and> \<not> read_fails f 0 \<longrightarrow>
      hash_file E p = [digest E MD5 [], digest E SHA1 [], digest E SHA256 []])
   \<and> (files E p = None \<longrightarrow> hash_file E p = [[], [], []])
   \<and> (files E p = Some f \<and> n \<le> (length (content f) + CHUNK - 1) div CHUNK \<and> read_fails f n \<longrightarrow>
        hash_file E p = [[], [], []])"
proof (intro conjI impI)
  assume a: "files E p = Some f \<and> content f = [] \<and> \<not> read_fails f 0"
  then have "read_chunks f 0 (content f) [(MD5, []), (SHA1, []), (SHA256, [])]
      = Inr [(MD5, []), (SHA1, []), (SHA256, [])]"
    by (subst read_chunks.simps) simp
  with a show "hash_file E p = [digest E MD5 [], digest E SHA1 [], digest E SHA256 []]"
    by (simp add: hash_file_def hash_file_try_def hexdigest_def)
next
  assume "files E p = None"
  then show "hash_file E p = [[], [], []]"
    by (simp add: hash_file_def hash_file_try_def)
next
  assume a: "files E p = Some f \<and> n \<le> (length (content f) + CHUNK - 1) div CHUNK \<and> read_fails f n"
  then obtain e where "read_chunks f 0 (content f) [(MD5, []), (SHA1, []), (SHA256, [])] = Inl e"
    using read_chunks_fail [of 0 n "content f" f] by auto
  with a show "hash_file E p = [[], [], []]"
    by (simp add: hash_file_def hash_file_try_def)
qed

theorem hash_file_empty_and_failure_witness:
  "hash_file fs_example ''/empty'' = [''md5:'', ''sha1:'', ''sha256:'']
   \<and> hash_file fs_example ''/missing'' = [[], [], []]
   \<and> hash_file fs_example ''/locked'' = [[], [], []]"
proof -
  have 1: "files fs_example ''/empty'' = Some \<lparr>content = [], read_fails = (\<lambda>n. False)\<rparr>"
    and 2: "files fs_example ''/missing'' = None"
    and 3: "files fs_example ''/locked'' = Some \<lparr>content = ''abc'', read_fails = (\<lambda>n. n = 1)\<rparr>"
    by (simp_all add: fs_example_def)
  show ?thesis
    using hash_file_empty_and_failure [of fs_example "''/empty''" "\<lparr>content = [], read_fails = (\<lambda>n. False)\<rparr>" 0]
      hash_file_empty_and_failure [of fs_example "''/missing''" undefined 0]
      hash_file_empty_and_failure [of fs_example "''/locked''" "\<lparr>content = ''abc'', read_fails = (\<lambda>n. n = 1)\<rparr>" 1]
      1 2 3
    by (simp add: fs_example_def CHUNK_def)
qed

subsection \<open>Timestamp inference\<close>

lemma ord2year_cycle:
  assumes "0 \<le> r" "r < 146097"
  shows "(let n100 = r div 36524; r1 = r mod 36524; n4 = r1 div 1461; r2 = r1 mod 1461;
              n1 = r2 div 365; y = n100 * 100 + n4 * 4 + n1
          in if n1 = 4 \<or> n100 = 4 then y - 1 else y) \<le> (399::int)"
proof -
  define n100 where "n100 = r div 36524"
  define r1 where "r1 = r mod 36524"
  define n4 where "n4 = r1 div 1461"
  define r2 where "r2 = r1 mod 1461"
  define n1 where "n1 = r2 div 365"
  have a: "n100 \<le> 4" "0 \<le> n100" using assms unfolding n100_def by simp_all
  have r1: "0 \<le> r1" "r1 < 36524" unfolding r1_def by simp_all
  have b: "n4 \<le> 24" "0 \<le> n4" using r1 unfolding n4_def by simp_all
  have r2: "0 \<le> r2" "r2 < 1461" unfolding r2_def by simp_all
  have c: "n1 \<le> 4" "0 \<le> n1" using r2 unfolding n1_def by simp_all
  have d: "n100 = 4 \<Longrightarrow> n4 = 0 \<and> n1 = 0"
  proof -
    assume "n100 = 4"
    then have "r = 146096" using assms unfolding n100_def by simp
    then show ?thesis unfolding n4_def n1_def r2_def r1_def by simp
  qed
  have e: "n4 = 24 \<Longrightarrow> n1 \<le> 3"
  proof -
    assume "n4 = 24"
    then have "r2 = r1 - 35064"
      using mult_div_mod_eq [of 1461 r1] unfolding r2_def n4_def by simp
    then have "r2 < 1460" using r1 by simp
    then show ?thesis using r2 unfolding n1_def by simp
  qed
  have "(if n1 = 4 \<or> n100 = 4 then n100 * 100 + n4 * 4 + n1 - 1 else n100 * 100 + n4 * 4 + n1) \<le> 399"
    using a b c d e by (cases "n100 = 4"; cases "n4 = 24"; cases "n1 = 4") auto
  then show ?thesis
    unfolding Let_def n100_def r1_def n4_def r2_def n1_def .
qed

lemma ord2year_le_2003:
  assumes "ordinal \<le> 731580"
  shows "ord2year ordinal \<le> 2003"
proof -
  define n where "n = ordinal - 1"
  define q where "q = n div 146097"
  define r where "r = n mod 146097"
  have r: "0 \<le> r" "r < 146097" unfolding r_def by simp_all
  have q: "q \<le> 5" using assms unfolding q_def n_def by simp
  let ?y = "(let n100 = r div 36524; r1 = r mod 36524; n4 = r1 div 1461; r2 = r1 mod 1461;
              n1 = r2 div 365; y = n100 * 100 + n4 * 4 + n1
          in if n1 = 4 \<or> n100 = 4 then y - 1 else y)"
  have eq: "ord2year ordinal = q * 400 + 1 + ?y"
    unfolding ord2year_def Let_def q_def r_def n_def by simp
  show ?thesis
  proof (cases "q = 5")
    case True
    have "n = 146097 * q + r" unfolding q_def r_def by simp
    with True assms have "r \<le> 1094" unfolding n_def by simp
    with r have "r div 36524 = 0" "r mod 36524 = r" "r div 1461 = 0" "r mod 1461 = r"
      by simp_all
    moreover have "r div 365 \<le> 2" using \<open>r \<le> 1094\<close> by simp
    moreover have "0 \<le> r div 365" using r by simp
    ultimately have "?y \<le> 2" by (simp add: Let_def)
    with eq True show ?thesis by simp
  next
    case False
    with q have "q \<le> 4" by simp
    moreover have "?y \<le> 399" using ord2year_cycle [OF r] .
    ultimately show ?thesis using eq by simp
  qed
qed

lemma dt_year_ge_2004:
  assumes "MIN_YEAR \<le> dt_year d"
  shows "731580 * US_PER_DAY \<le> d"
proof (rule ccontr)
  assume "\<not> 731580 * US_PER_DAY \<le> d"
  then have "d < 731580 * US_PER_DAY" by simp
  then have "d div US_PER_DAY < 731580"
    unfolding US_PER_DAY_def by simp
  then have "ord2year (d div US_PER_DAY + 1) \<le> 2003"
    by (intro ord2year_le_2003) simp
  with assms show False by (simp add: dt_year_def MIN_YEAR_def)
qed

lemma errorhandling_Some:
  "timestamp_errorhandling E func x = Some dt \<Longrightarrow>
     func x = Inr dt \<and> MIN_YEAR \<le> dt_year dt \<and> dt \<le> now E + US_PER_DAY"
  by (auto simp: timestamp_errorhandling_def datetime_add_def split: sum.splits if_splits)

lemma errorhandling_rejects:
  "func x = Inr dt \<Longrightarrow> dt_year dt < MIN_YEAR \<or> now E + US_PER_DAY < dt \<Longrightarrow>
     timestamp_errorhandling E func x = None"
  by (auto simp: timestamp_errorhandling_def datetime_add_def split: sum.splits if_splits)

lemma local_int_Some:
  assumes "convert_to_local E (epoch_plus E ep u) (PInt n) = Inr d"
  shows "\<exists>off. utcoffset E (timegm (ep + n * u)) = Some off
           \<and> d = DATETIME_1970 + (timegm (ep + n * u) + off) * US_PER_SECOND
           \<and> datetime_valid d"
  using assms
  by (auto simp: convert_to_local_def epoch_plus_def timedelta_of_def timedelta_of_us_def
      datetime_add_def fromtimestamp_def Let_def split: sum.splits if_splits option.splits)

lemma candidate_None:
  assumes "\<And>off. utcoffset E (timegm (ep + n * u)) = Some off \<Longrightarrow>
      DATETIME_1970 + (timegm (ep + n * u) + off) * US_PER_SECOND < 731580 * US_PER_DAY"
  shows "timestamp_errorhandling E (convert_to_local E (epoch_plus E ep u)) (PInt n) = None"
proof (cases "timestamp_errorhandling E (convert_to_local E (epoch_plus E ep u)) (PInt n)")
  case None
  then show ?thesis .
next
  case (Some d)
  from errorhandling_Some [OF Some]
  have c: "convert_to_local E (epoch_plus E ep u) (PInt n) = Inr d" and y: "MIN_YEAR \<le> dt_year d"
    by simp_all
  from local_int_Some [OF c] obtain off where
    "utcoffset E (timegm (ep + n * u)) = Some off"
    "d = DATETIME_1970 + (timegm (ep + n * u) + off) * US_PER_SECOND" by blast
  with assms have "d < 731580 * US_PER_DAY" by simp
  with dt_year_ge_2004 [OF y] show ?thesis by simp
qed


lemma timegm_1970_us: "timegm (DATETIME_1970 + n * 1) = n div 1000000"
  by (simp add: timegm_def DATETIME_1970_def datetime_of_year_def days_before_year_def
      US_PER_DAY_def US_PER_SECOND_def)

lemma timegm_1601_us: "timegm (DATETIME_1601 + n * 1) = n div 1000000 - 11644473600"
proof -
  have "DATETIME_1601 + n = n + (50491123200 * 1000000)" 
    by (simp add: DATETIME_1601_def datetime_of_year_def days_before_year_def US_PER_DAY_def)
  then have "(DATETIME_1601 + n) div 1000000 = n div 1000000 + 50491123200"
    by simp
  then show ?thesis
  by (simp add: timegm_def DATETIME_1970_def datetime_of_year_def days_before_year_def
      US_PER_DAY_def US_PER_SECOND_def)
qed


lemma microseconds_rejected:
  assumes tz: "\<And>t off. utcoffset E t = Some off \<Longrightarrow> \<bar>off\<bar> \<le> 86400"
    and n: "1072828800 \<le> n" "n < 253402387200"
  shows "microseconds_since_epoch_to_datetime E (PInt n) = None"
    and "microseconds_since_1601_to_datetime E (PInt n) = None"
proof -
  have q: "0 \<le> n div 1000000" "n div 1000000 < 253403" using n by simp_all
  show "microseconds_since_epoch_to_datetime E (PInt n) = None"
    unfolding microseconds_since_epoch_to_datetime_def
  proof (rule candidate_None)
    fix off assume "utcoffset E (timegm (DATETIME_1970 + n * 1)) = Some off"
    from tz [OF this] have "off \<le> 86400" by simp
    with q show "DATETIME_1970 + (timegm (DATETIME_1970 + n * 1) + off) * US_PER_SECOND
        < 731580 * US_PER_DAY"
      unfolding timegm_1970_us
      by (simp add: DATETIME_1970_def datetime_of_year_def days_before_year_def
          US_PER_DAY_def US_PER_SECOND_def)
  qed
  show "microseconds_since_1601_to_datetime E (PInt n) = None"
    unfolding microseconds_since_1601_to_datetime_def
  proof (rule candidate_None)
    fix off assume "utcoffset E (timegm (DATETIME_1601 + n * 1)) = Some off"
    from tz [OF this] have "off \<le> 86400" by simp
    with q show "DATETIME_1970 + (timegm (DATETIME_1601 + n * 1) + off) * US_PER_SECOND
        < 731580 * US_PER_DAY"
      unfolding timegm_1601_us
      by (simp add: DATETIME_1970_def datetime_of_year_def days_before_year_def
          US_PER_DAY_def US_PER_SECOND_def)
  qed
qed

lemma py_or_first_accepted: "py_or a (first_accepted rs) = first_accepted (a # rs)"
  by (cases a) (simp_all add: py_or_def)

lemma try_candidates_spec: "try_candidates E val = spec_infer E val"
proof -
  have "first_accepted [r] = r" for r :: "datetime option" by (cases r) simp_all
  then show ?thesis
    by (simp add: try_candidates_def spec_infer_def spec_candidates_def
      py_or_first_accepted [symmetric])
qed



lemma example_seconds_epoch:
  "seconds_since_epoch_to_datetime pyenv_example (PInt 1100000000) = Some 63235568000000000"
  by (simp add: seconds_since_epoch_to_datetime_def timestamp_errorhandling_def
      convert_to_local_def epoch_plus_def timedelta_of_def timedelta_of_us_def datetime_add_def
      fromtimestamp_def timegm_def datetime_valid_def dt_year_def ord2year_def
      pyenv_example_def DATETIME_1970_def datetime_of_year_def days_before_year_def
      US_PER_DAY_def US_PER_SECOND_def MIN_YEAR_def MINYEAR_def MAXYEAR_def Let_def)

lemma example_seconds_2001:
  "seconds_since_2001_to_datetime pyenv_example (PInt 1100000000) = Some 64213875200000000"
  by (simp add: seconds_since_2001_to_datetime_def timestamp_errorhandling_def
      convert_to_local_def epoch_plus_def timedelta_of_def timedelta_of_us_def datetime_add_def
      fromtimestamp_def timegm_def datetime_valid_def dt_year_def ord2year_def
      pyenv_example_def DATETIME_1970_def DATETIME_2001_def datetime_of_year_def days_before_year_def
      US_PER_DAY_def US_PER_SECOND_def MIN_YEAR_def MINYEAR_def MAXYEAR_def Let_def)

lemma example_value_to_datetime:
  "value_to_datetime pyenv_example (PInt 1100000000) = Some 63235568000000000"
proof -
  have "\<bar>off\<bar> \<le> 86400" if "utcoffset pyenv_example t = Some off" for t off
    using that by (auto simp: pyenv_example_def)
  from microseconds_rejected [of pyenv_example 1100000000, OF this] example_seconds_epoch
  show ?thesis
    by (simp add: value_to_datetime_def is_basestring_def try_candidates_def py_or_def)
qed

lemmas candidate_defs =
  timestamp_errorhandling_def convert_to_local_def epoch_plus_def timedelta_of_def
  timedelta_of_us_def datetime_add_def fromtimestamp_def timegm_def datetime_valid_def
  dt_year_def ord2year_def pyenv_example_def DATETIME_1970_def DATETIME_2001_def
  DATETIME_1601_def datetime_of_year_def days_before_year_def US_PER_DAY_def
  US_PER_SECOND_def MIN_YEAR_def MINYEAR_def MAXYEAR_def Let_def

lemma example_microseconds_epoch:
  "microseconds_since_epoch_to_datetime pyenv_example (PInt 1100000000000000)
     = Some 63235568000000000"
  by (simp add: microseconds_since_epoch_to_datetime_def candidate_defs)

lemma example_microseconds_1601:
  "microseconds_since_1601_to_datetime pyenv_example (PInt 12744473600000000)
     = Some 63235568000000000"
  by (simp add: microseconds_since_1601_to_datetime_def candidate_defs)



text \<open>
  Claim C5: under each of the four candidate interpretations a computed date whose year is
  below 2004, or which is later than the current time plus one day, is rejected by
  \<^verbatim>\<open>_timestamp_errorhandling\<close>, so whatever a candidate or \<^verbatim>\<open>_value_to_datetime\<close>
  returns has a year of at least 2004 and is at most one day after the current time.
\<close>

theorem timestamp_validity_bound:
  "(func x = Inr dt \<and> (dt_year dt < 2004 \<or> now E + US_PER_DAY < dt) \<longrightarrow>
      timestamp_errorhandling E func x = None)
   \<and> (microseconds_since_epoch_to_datetime E val = Some d \<longrightarrow>
        2004 \<le> dt_year d \<and> d \<le> now E + US_PER_DAY)
   \<and> (microseconds_since_1601_to_datetime E val = Some d \<longrightarrow>
        2004 \<le> dt_year d \<and> d \<le> now E + US_PER_DAY)
   \<and> (seconds_since_epoch_to_datetime E val = Some d \<longrightarrow>
        2004 \<le> dt_year d \<and> d \<le> now E + US_PER_DAY)
   \<and> (seconds_since_2001_to_datetime E val = Some d \<longrightarrow>
        2004 \<le> dt_year d \<and> d \<le> now E + US_PER_DAY)
   \<and> (value_to_datetime E val = Some d \<longrightarrow>
        2004 \<le> dt_year d \<and> d \<le> now E + US_PER_DAY)"
proof -
  have cand: "2004 \<le> dt_year d \<and> d \<le> now E + US_PER_DAY"
    if "c \<in> set spec_candidates" "c E v = Some d" for c v
    using that errorhandling_Some [of E _ v d]
    by (auto simp: spec_candidates_def MIN_YEAR_def
        microseconds_since_epoch_to_datetime_def microseconds_since_1601_to_datetime_def
        seconds_since_epoch_to_datetime_def seconds_since_2001_to_datetime_def)
  have fa: "first_accepted rs = Some d \<Longrightarrow> Some d \<in> set rs" for rs :: "datetime option list"
    by (induction rs rule: first_accepted.induct) auto
  have infer: "2004 \<le> dt_year d \<and> d \<le> now E + US_PER_DAY" if "spec_infer E v = Some d" for v
    using fa [OF that [unfolded spec_infer_def]] cand by auto
  have "value_to_datetime E val = Some d \<longrightarrow> 2004 \<le> dt_year d \<and> d \<le> now E + US_PER_DAY"
    using infer by (auto simp: value_to_datetime_def try_candidates_spec split: if_splits option.splits)
  moreover have "func x = Inr dt \<and> (dt_year dt < 2004 \<or> now E + US_PER_DAY < dt) \<longrightarrow>
      timestamp_errorhandling E func x = None"
    using errorhandling_rejects [of func x dt E] by (auto simp: MIN_YEAR_def)
  moreover have
    "microseconds_since_epoch_to_datetime E val = Some d \<longrightarrow>
        2004 \<le> dt_year d \<and> d \<le> now E + US_PER_DAY"
    "microseconds_since_1601_to_datetime E val = Some d \<longrightarrow>
        2004 \<le> dt_year d \<and> d \<le> now E + US_PER_DAY"
    "seconds_since_epoch_to_datetime E val = Some d \<longrightarrow>
        2004 \<le> dt_year d \<and> d \<le> now E + US_PER_DAY"
    "seconds_since_2001_to_datetime E val = Some d \<longrightarrow>
        2004 \<le> dt_year d \<and> d \<le> now E + US_PER_DAY"
    using cand [of microseconds_since_epoch_to_datetime val]
      cand [of microseconds_since_1601_to_datetime val]
      cand [of seconds_since_epoch_to_datetime val]
      cand [of seconds_since_2001_to_datetime val]
    by (simp_all add: spec_candidates_def)
  ultimately show ?thesis
    by (intro conjI)
qed

theorem timestamp_validity_bound_witness:
  "microseconds_since_epoch_to_datetime pyenv_example (PInt 1100000000000000)
     = Some 63235568000000000
   \<and> microseconds_since_1601_to_datetime pyenv_example (PInt 12744473600000000)
     = Some 63235568000000000
   \<and> seconds_since_epoch_to_datetime pyenv_example (PInt 1100000000) = Some 63235568000000000
   \<and> seconds_since_2001_to_datetime pyenv_example (PInt 1100000000) = Some 64213875200000000
   \<and> value_to_datetime pyenv_example (PInt 1100000000) = Some 63235568000000000
   \<and> 2004 \<le> dt_year 63235568000000000
   \<and> 63235568000000000 \<le> now pyenv_example + US_PER_DAY
   \<and> 2004 \<le> dt_year 64213875200000000
   \<and> 64213875200000000 \<le> now pyenv_example + US_PER_DAY
   \<and> epoch_plus pyenv_example DATETIME_1970 US_PER_SECOND (PInt 5) = Inr 62135596805000000
   \<and> dt_year 62135596805000000 < 2004
   \<and> timestamp_errorhandling pyenv_example
        (epoch_plus pyenv_example DATETIME_1970 US_PER_SECOND) (PInt 5) = None"
proof -
  have e: "epoch_plus pyenv_example DATETIME_1970 US_PER_SECOND (PInt 5) = Inr 62135596805000000"
    by (simp add: epoch_plus_def timedelta_of_def timedelta_of_us_def datetime_add_def
        datetime_valid_def DATETIME_1970_def datetime_of_year_def days_before_year_def
        US_PER_DAY_def US_PER_SECOND_def MINYEAR_def MAXYEAR_def)
  have y: "dt_year 62135596805000000 < 2004"
    by (simp add: dt_year_def ord2year_def US_PER_DAY_def Let_def)
  show ?thesis
    using timestamp_validity_bound [of "epoch_plus pyenv_example DATETIME_1970 US_PER_SECOND"
        "PInt 5" 62135596805000000 pyenv_example "PInt 1100000000" 63235568000000000]
      timestamp_validity_bound [of "\<lambda>x. Inl TypeError" x 0 pyenv_example
        "PInt 1100000000000000" 63235568000000000]
      timestamp_validity_bound [of "\<lambda>x. Inl TypeError" x 0 pyenv_example
        "PInt 12744473600000000" 63235568000000000]
      timestamp_validity_bound [of "\<lambda>x. Inl TypeError" x 0 pyenv_example
        "PInt 1100000000" 64213875200000000]
      example_value_to_datetime example_seconds_epoch example_seconds_2001
      example_microseconds_epoch example_microseconds_1601 e y
    by simp
qed

subsection \<open>Normalization\<close>

lemma key_hints_timestamp_None [simp]: "key_hints_timestamp E PNone = Inr False"
  by (simp add: key_hints_timestamp_def py_truth_def)


lemma key_hints_timestamp_raises:
  "py_truth key \<Longrightarrow> \<not> is_basestring key \<Longrightarrow> key_hints_timestamp E key = Inl AttributeError"
  by (cases key) (auto simp: key_hints_timestamp_def py_lower_def is_basestring_def)





text \<open>
  A truthy hint that is not a string makes \<^verbatim>\<open>key.lower()\<close> raise, outside the \<^verbatim>\<open>try\<close>.
\<close>

lemma normalize_val_raises:
  "py_truth key \<Longrightarrow> \<not> is_basestring key \<Longrightarrow>
     normalize_val E (Suc d) val key = Inl AttributeError"
  by (simp add: key_hints_timestamp_raises)


text \<open>
  Arrays nested as deep as the recursion budget or deeper: the innermost admitted call
  raises \<^verbatim>\<open>RuntimeError\<close>, each handler on the way out calls \<^verbatim>\<open>repr\<close> on a value that is
  too deep for the budget left there, and the exception reaches the caller.
\<close>

lemma nesting_nested_array: "nesting (nested_array n) = Suc n"
  by (induction n) simp_all

lemma normalize_val_nested_array:
  "d \<le> n \<Longrightarrow> normalize_val pyenv_bounded d (nested_array n) PNone = Inl RuntimeError"
proof (induction d arbitrary: n)
  case 0
  show ?case by simp
next
  case (Suc d)
  then obtain m where m: "n = Suc m" "d \<le> m" by (cases n) auto
  from Suc.IH [OF m(2)] m show ?case
    by (simp add: nesting_nested_array pyenv_bounded_def)
qed










end
